theory Spec2Isabelle
  imports Main
begin

section \<open>JavaScript values\<close>

text \<open>
  The schema converter and the route documentation helper build plain JavaScript objects.
  A value is modelled as a tree; an object is the list of its own enumerable properties in
  the order \<^verbatim>\<open>Object.entries\<close> reports them. Numbers are only copied by the code, never
  computed with, so their carrier is of no consequence; integers are used.
\<close>

datatype jsval =
    JUndefined
  | JNull
  | JBool bool
  | JNum int
  | JStr string
  | JArr "jsval list"
  | JObj "(string \<times> jsval) list"

type_synonym obj = "(string \<times> jsval) list"

text \<open>\<^verbatim>\<open>o[k] = v\<close>: an existing key keeps its position, a new key is appended.\<close>

fun setProp :: "string \<Rightarrow> 'a \<Rightarrow> (string \<times> 'a) list \<Rightarrow> (string \<times> 'a) list" where
  "setProp k v [] = [(k, v)]"
| "setProp k v (p # ps) = (if fst p = k then (k, v) # ps else p # setProp k v ps)"

text \<open>
  The own properties of an object are enumerated (by \<^verbatim>\<open>Object.entries\<close>, \<^verbatim>\<open>Object.values\<close>,
  \<^verbatim>\<open>for ... in\<close>) in this order: first the names that are array indices, that is the
  canonical decimal numerals from \<open>0\<close> to \<open>2\<^sup>3\<^sup>2 - 2\<close>, in ascending numeric order; then
  the other names in the order in which the properties were created.
\<close>

definition isDigit :: "char \<Rightarrow> bool" where
  "isDigit c = (48 \<le> (of_char c :: nat) \<and> (of_char c :: nat) \<le> 57)"

definition indexValue :: "string \<Rightarrow> nat" where
  "indexValue s = fold (\<lambda>c n. 10 * n + ((of_char c :: nat) - 48)) s 0"

definition isArrayIndex :: "string \<Rightarrow> bool" where
  "isArrayIndex s =
     (s \<noteq> [] \<and> list_all isDigit s \<and> (s = ''0'' \<or> hd s \<noteq> CHR ''0'')
      \<and> indexValue s < 4294967295)"

definition objectEntries :: "(string \<times> 'a) list \<Rightarrow> (string \<times> 'a) list" where
  "objectEntries created =
     sort_key (\<lambda>p. indexValue (fst p)) (filter (\<lambda>p. isArrayIndex (fst p)) created)
     @ filter (\<lambda>p. \<not> isArrayIndex (fst p)) created"

text \<open>An object literal \<^verbatim>\<open>{k1: v1, k2: v2, ...}\<close> creates its properties in the order
  written; a name written twice keeps its first place and takes its last value.\<close>

definition objectLiteral :: "(string \<times> 'a) list \<Rightarrow> (string \<times> 'a) list" where
  "objectLiteral written = fold (\<lambda>(k, v). setProp k v) written []"

text \<open>\<^verbatim>\<open>{ ...base, ...extra }\<close>: the properties of \<open>extra\<close> are assigned onto \<open>base\<close> in order.\<close>

definition spread :: "obj \<Rightarrow> obj \<Rightarrow> obj" where
  "spread base extra = fold (\<lambda>(k, v). setProp k v) extra base"

text \<open>Truthiness, as \<^verbatim>\<open>if (x)\<close> and \<^verbatim>\<open>x || y\<close> test it.\<close>

fun truthy :: "jsval \<Rightarrow> bool" where
  "truthy JUndefined = False"
| "truthy JNull = False"
| "truthy (JBool b) = b"
| "truthy (JNum n) = (n \<noteq> 0)"
| "truthy (JStr s) = (s \<noteq> [])"
| "truthy (JArr xs) = True"
| "truthy (JObj ps) = True"

text \<open>An optional string property (\<open>None\<close> is \<^verbatim>\<open>undefined\<close>) is truthy when it is a non-empty
  string.\<close>

fun truthyStr :: "string option \<Rightarrow> bool" where
  "truthyStr None = False"
| "truthyStr (Some s) = (s \<noteq> [])"

fun jsTypeof :: "jsval \<Rightarrow> string" where
  "jsTypeof JUndefined = ''undefined''"
| "jsTypeof JNull = ''object''"
| "jsTypeof (JBool b) = ''boolean''"
| "jsTypeof (JNum n) = ''number''"
| "jsTypeof (JStr s) = ''string''"
| "jsTypeof (JArr xs) = ''object''"
| "jsTypeof (JObj ps) = ''object''"

text \<open>\<^verbatim>\<open>Object.values\<close>. On \<^verbatim>\<open>null\<close> and \<^verbatim>\<open>undefined\<close> JavaScript raises a TypeError; the
  converter only applies it to the value mapping of a native enum, which is an object.\<close>

fun objectValues :: "jsval \<Rightarrow> jsval list" where
  "objectValues (JObj ps) = map snd ps"
| "objectValues (JArr xs) = xs"
| "objectValues (JStr s) = map (\<lambda>c. JStr [c]) s"
| "objectValues v = []"

section \<open>The validation schema nodes (input of the converter)\<close>

text \<open>One entry of \<^verbatim>\<open>_def.checks\<close>. Fields a check kind does not carry are \<open>None\<close> (or
  \<^verbatim>\<open>undefined\<close> for \<open>value\<close>); \<open>regexSource\<close> is \<^verbatim>\<open>check.regex.source\<close>.\<close>

record check =
  kind :: string
  "value" :: jsval
  inclusive :: "bool option"
  version :: "string option"
  regexSource :: string

text \<open>
  A schema node as \<^verbatim>\<open>convert\<close> receives it, when it is not \<^verbatim>\<open>null\<close>/\<^verbatim>\<open>undefined\<close>
  (those are \<open>None\<close> of \<open>zod option\<close>): \<open>NoDef\<close> is any value without a truthy \<^verbatim>\<open>_def\<close>,
  \<open>Def\<close> carries the fields of \<^verbatim>\<open>_def\<close> that the converter reads. The discriminant
  \<^verbatim>\<open>_def.typeName\<close> is a string or missing. Fields that a variant does not have are
  \<open>None\<close>, \<open>[]\<close> or \<^verbatim>\<open>undefined\<close>. \<open>def_shape\<close> is the shape as it was declared: the
  properties of the object literal given to \<^verbatim>\<open>z.object\<close>, in the order written, whose values
  are objects; \<^verbatim>\<open>_def.shape()\<close> returns the object that this literal created.
  \<open>def_minLength\<close> and \<open>def_maxLength\<close> are \<open>Some v\<close> for \<^verbatim>\<open>{value: v}\<close>;
  \<open>def_defaultValue\<close> is what calling the producer returns, \<open>None\<close> when the call raises.
\<close>

datatype zod =
    NoDef
  | Def (def_typeName: "string option")
        (def_description: "string option")
        (def_checks: "check list option")
        (def_values: jsval)
        (def_value: jsval)
        (def_shape: "(string \<times> zod) list")
        (def_unknownKeys: "string option")
        (def_type: "zod option")
        (def_minLength: "jsval option")
        (def_maxLength: "jsval option")
        (def_valueType: "zod option")
        (def_innerType: "zod option")
        (def_defaultValue: "jsval option")
        (def_options: "zod option list")
        (def_left: "zod option")
        (def_right: "zod option")
        (def_schema: "zod option")
  where
    "def_typeName NoDef = None"
  | "def_description NoDef = None"
  | "def_checks NoDef = None"

section \<open>zodToOpenAPI.js\<close>

text \<open>The body of the loop of \<^verbatim>\<open>convertString\<close>: one check updates the schema.\<close>

definition stringCheck :: "check \<Rightarrow> obj \<Rightarrow> obj" where
  "stringCheck c schema =
     (if kind c = ''min'' then setProp ''minLength'' (value c) schema
      else if kind c = ''max'' then setProp ''maxLength'' (value c) schema
      else if kind c = ''length'' then
        setProp ''maxLength'' (value c) (setProp ''minLength'' (value c) schema)
      else if kind c = ''email'' then setProp ''format'' (JStr ''email'') schema
      else if kind c = ''url'' then setProp ''format'' (JStr ''uri'') schema
      else if kind c = ''uuid'' then setProp ''format'' (JStr ''uuid'') schema
      else if kind c = ''cuid'' \<or> kind c = ''cuid2'' then setProp ''format'' (JStr ''cuid'') schema
      else if kind c = ''ulid'' then setProp ''format'' (JStr ''ulid'') schema
      else if kind c = ''regex'' then setProp ''pattern'' (JStr (regexSource c)) schema
      else if kind c = ''datetime'' then setProp ''format'' (JStr ''date-time'') schema
      else if kind c = ''date'' then setProp ''format'' (JStr ''date'') schema
      else if kind c = ''time'' then setProp ''format'' (JStr ''time'') schema
      else if kind c = ''ip'' then
        setProp ''format''
          (JStr (if version c = Some ''v4'' then ''ipv4''
                 else if version c = Some ''v6'' then ''ipv6'' else ''ip'')) schema
      else schema)"

text \<open>\<^verbatim>\<open>zodSchema._def.checks || []\<close>\<close>

definition checksOf :: "zod \<Rightarrow> check list" where
  "checksOf z = (case def_checks z of None \<Rightarrow> [] | Some cs \<Rightarrow> cs)"

definition convertString :: "zod \<Rightarrow> obj" where
  "convertString zodSchema =
     fold stringCheck (checksOf zodSchema) [(''type'', JStr ''string'')]"

definition numberCheck :: "check \<Rightarrow> obj \<Rightarrow> obj" where
  "numberCheck c constraints =
     (if kind c = ''min'' then
        (if inclusive c = Some False then setProp ''exclusiveMinimum'' (value c) constraints
         else setProp ''minimum'' (value c) constraints)
      else if kind c = ''max'' then
        (if inclusive c = Some False then setProp ''exclusiveMaximum'' (value c) constraints
         else setProp ''maximum'' (value c) constraints)
      else if kind c = ''int'' then setProp ''type'' (JStr ''integer'') constraints
      else if kind c = ''multipleOf'' then setProp ''multipleOf'' (value c) constraints
      else constraints)"

definition getNumberConstraints :: "zod \<Rightarrow> obj" where
  "getNumberConstraints zodSchema = fold numberCheck (checksOf zodSchema) []"

definition convertNumber :: "zod \<Rightarrow> obj" where
  "convertNumber zodSchema =
     spread [(''type'', JStr ''number'')] (getNumberConstraints zodSchema)"

text \<open>\<^verbatim>\<open>zodSchema._def?.typeName\<close> compared with the three wrapper names.\<close>

definition isOptional :: "zod \<Rightarrow> bool" where
  "isOptional zodSchema =
     (def_typeName zodSchema = Some ''ZodOptional''
      \<or> def_typeName zodSchema = Some ''ZodNullable''
      \<or> def_typeName zodSchema = Some ''ZodDefault'')"

text \<open>The tail of \<^verbatim>\<open>convert\<close>: \<^verbatim>\<open>if (description) schema.description = description\<close>.\<close>

definition addDescription :: "string option \<Rightarrow> obj \<Rightarrow> obj" where
  "addDescription description schema =
     (case description of
        None \<Rightarrow> schema
      | Some d \<Rightarrow> if d \<noteq> [] then setProp ''description'' (JStr d) schema else schema)"

text \<open>The tail of \<^verbatim>\<open>convertObject\<close>, after the loop over the shape has filled
  \<open>properties\<close> and \<open>required\<close>.\<close>

definition objectSchema :: "obj \<Rightarrow> string list \<Rightarrow> string option \<Rightarrow> obj" where
  "objectSchema properties required unknownKeys =
     (let schema = [(''type'', JStr ''object''), (''properties'', JObj properties)];
          schema = (if length required > 0
                    then setProp ''required'' (JArr (map JStr required)) schema else schema)
      in if unknownKeys = Some ''passthrough'' then setProp ''additionalProperties'' (JBool True) schema
         else if unknownKeys = Some ''strict'' then setProp ''additionalProperties'' (JBool False) schema
         else schema)"

text \<open>
  \<^verbatim>\<open>convert\<close> and \<^verbatim>\<open>convertObject\<close> call each other. The loop of \<^verbatim>\<open>convertObject\<close> runs over
  \<^verbatim>\<open>Object.entries(shape)\<close> with the two locals \<open>properties\<close> and \<open>required\<close>: it assigns
  \<open>properties[key]\<close> and pushes the key when the value is not optional.
  \<^verbatim>\<open>convertObject\<close> is only ever called on a node with \<^verbatim>\<open>_def\<close>; on any other value
  JavaScript raises a TypeError, and the model leaves the result unspecified.
\<close>

function (sequential) convert :: "zod option \<Rightarrow> obj"
  and convertObject :: "zod \<Rightarrow> obj" where
  "convert None = [(''type'', JStr ''object'')]"
| "convert (Some zodSchema) =
     (case zodSchema of
        NoDef \<Rightarrow> [(''type'', JStr ''object'')]
      | Def typeName description cs vals val shp uk ty minL maxL vt inner dv opts l r sch \<Rightarrow>
          addDescription description
            (if typeName = Some ''ZodString'' then convertString zodSchema
             else if typeName = Some ''ZodNumber'' then convertNumber zodSchema
             else if typeName = Some ''ZodInt'' then
               spread [(''type'', JStr ''integer'')] (getNumberConstraints zodSchema)
             else if typeName = Some ''ZodBoolean'' then [(''type'', JStr ''boolean'')]
             else if typeName = Some ''ZodDate'' then
               [(''type'', JStr ''string''), (''format'', JStr ''date-time'')]
             else if typeName = Some ''ZodEnum'' then
               [(''type'', JStr ''string''), (''enum'', vals)]
             else if typeName = Some ''ZodNativeEnum'' then
               [(''type'', JStr ''string''), (''enum'', JArr (objectValues vals))]
             else if typeName = Some ''ZodLiteral'' then
               [(''type'', JStr (jsTypeof val)), (''enum'', JArr [val])]
             else if typeName = Some ''ZodObject'' then convertObject zodSchema
             else if typeName = Some ''ZodArray'' then
               (let schema = [(''type'', JStr ''array''), (''items'', JObj (convert ty))];
                    schema = (case minL of None \<Rightarrow> schema
                              | Some v \<Rightarrow> setProp ''minItems'' v schema)
                in case maxL of None \<Rightarrow> schema | Some v \<Rightarrow> setProp ''maxItems'' v schema)
             else if typeName = Some ''ZodRecord'' then
               [(''type'', JStr ''object''), (''additionalProperties'', JObj (convert vt))]
             else if typeName = Some ''ZodOptional'' then convert inner
             else if typeName = Some ''ZodNullable'' then
               setProp ''nullable'' (JBool True) (convert inner)
             else if typeName = Some ''ZodDefault'' then
               (case dv of None \<Rightarrow> convert inner
                | Some d \<Rightarrow> setProp ''default'' d (convert inner))
             else if typeName = Some ''ZodUnion'' then
               [(''oneOf'', JArr (map (\<lambda>opt. JObj (convert opt)) opts))]
             else if typeName = Some ''ZodIntersection'' then
               [(''allOf'', JArr [JObj (convert l), JObj (convert r)])]
             else if typeName = Some ''ZodEffects'' then convert sch
             else if typeName = Some ''ZodAny'' then []
             else if typeName = Some ''ZodUnknown'' then []
             else if typeName = Some ''ZodVoid'' \<or> typeName = Some ''ZodUndefined'' then
               [(''type'', JStr ''null'')]
             else [(''type'', JStr ''string'')]))"
| "convertObject (Def typeName description cs vals val shp uk ty minL maxL vt inner dv opts l r sch) =
     (let (properties, required) =
            fold (\<lambda>(key, v) (properties, required).
                    (setProp key (JObj (convert (Some v))) properties,
                     if \<not> isOptional v then required @ [key] else required))
                 (objectEntries (objectLiteral shp)) ([], [])
      in objectSchema properties required uk)"
  by pat_completeness auto

text \<open>Every entry that \<^verbatim>\<open>Object.entries\<close> reports is a property of the declared shape, so
  each call goes to a smaller node.\<close>

termination
proof -
  have set_setProp: "set (setProp k v acc) \<subseteq> insert (k, v) (set acc)"
    for k v and acc :: "(string \<times> zod) list"
    by (induction acc) auto
  have set_literal: "set (fold (\<lambda>(k, v). setProp k v) written acc) \<subseteq> set acc \<union> set written"
    for written acc :: "(string \<times> zod) list"
  proof (induction written arbitrary: acc)
    case Nil
    show ?case by simp
  next
    case (Cons d ds)
    from set_setProp [of "fst d" "snd d" acc] Cons [of "setProp (fst d) (snd d) acc"]
    show ?case by (auto simp add: split_beta)
  qed
  have entry: "size v < size_list (\<lambda>x. Suc (size (snd x))) shp"
    if "(key, v) \<in> set (objectEntries (objectLiteral shp))"
    for key v and shp :: "(string \<times> zod) list"
  proof -
    from that set_literal [of shp "[]"] have "(key, v) \<in> set shp"
      by (auto simp add: objectEntries_def objectLiteral_def)
    then show ?thesis
      by (induction shp) auto
  qed
  show ?thesis
    by (relation "measure (\<lambda>x. case x of Inl z \<Rightarrow> 2 * size_option size z + 1
                                  | Inr z \<Rightarrow> 2 * size z)")
       (auto simp add: termination_simp dest!: entry)
qed

section \<open>Strings\<close>

text \<open>
  Strings are taken to be ASCII: \<^verbatim>\<open>toLowerCase\<close> and \<^verbatim>\<open>toUpperCase\<close> map the 26 letters and
  leave every other character as it is.
\<close>

definition lowerChar :: "char \<Rightarrow> char" where
  "lowerChar c =
     (let n = (of_char c :: nat) in if 65 \<le> n \<and> n \<le> 90 then char_of (n + 32) else c)"

definition upperChar :: "char \<Rightarrow> char" where
  "upperChar c =
     (let n = (of_char c :: nat) in if 97 \<le> n \<and> n \<le> 122 then char_of (n - 32) else c)"

definition toLowerCase :: "string \<Rightarrow> string" where
  "toLowerCase s = map lowerChar s"

definition toUpperCase :: "string \<Rightarrow> string" where
  "toUpperCase s = map upperChar s"

text \<open>\<^verbatim>\<open>s.split(sep)\<close> for a one-character separator; the empty string gives one empty part.\<close>

fun split :: "char \<Rightarrow> string \<Rightarrow> string list" where
  "split sep [] = [[]]"
| "split sep (c # cs) =
     (if c = sep then [] # split sep cs
      else (case split sep cs of [] \<Rightarrow> [[c]] | w # ws \<Rightarrow> (c # w) # ws))"

text \<open>\<^verbatim>\<open>s.slice(start, end)\<close>: a negative index counts from the end, both are clamped to the
  string, and an empty range gives the empty string.\<close>

definition slice :: "string \<Rightarrow> int \<Rightarrow> int \<Rightarrow> string" where
  "slice s start fin =
     (let len = int (length s);
          from = (if start < 0 then max (len + start) 0 else min start len);
          to = (if fin < 0 then max (len + fin) 0 else min fin len)
      in take (nat (to - from)) (drop (nat from) s))"

text \<open>\<^verbatim>\<open>s.slice(start)\<close>\<close>

definition sliceFrom :: "string \<Rightarrow> int \<Rightarrow> string" where
  "sliceFrom s start = slice s start (int (length s))"

text \<open>\<^verbatim>\<open>s.charAt(0)\<close>: the first character as a string, or the empty string.\<close>

definition charAt0 :: "string \<Rightarrow> string" where
  "charAt0 s = take 1 s"

definition startsWith :: "string \<Rightarrow> string \<Rightarrow> bool" where
  "startsWith s pre = (take (length pre) s = pre)"

section \<open>routeDoc.js\<close>

text \<open>The configuration object given to \<^verbatim>\<open>api.get\<close>, \<^verbatim>\<open>api.post\<close>, ...; \<open>None\<close> is a property left
  out (or \<^verbatim>\<open>null\<close> for the schemas).\<close>

record config =
  cfg_summary :: "string option"
  cfg_description :: "string option"
  cfg_tags :: "string list option"
  cfg_auth :: "bool option"
  cfg_body :: "zod option"
  cfg_query :: "zod option"
  cfg_params :: "zod option"
  cfg_response :: "zod option"
  cfg_responses :: "(string \<rightharpoonup> jsval) option"

text \<open>The route definition \<^verbatim>\<open>createRoute\<close> returns. A response hint that is not a schema
  (a documentation placeholder) is a value without \<^verbatim>\<open>_def\<close>, that is \<open>Some NoDef\<close>.\<close>

record route =
  "method" :: string
  path :: string
  summary :: "string option"
  description :: "string option"
  tags :: "string list"
  auth :: bool
  bodySchema :: "zod option"
  querySchema :: "zod option"
  paramsSchema :: "zod option"
  responseSchema :: "zod option"
  customResponses :: "string \<rightharpoonup> jsval"

text \<open>\<^verbatim>\<open>a || b\<close> on optional strings.\<close>

definition orElse :: "string option \<Rightarrow> string option \<Rightarrow> string option" where
  "orElse a b = (if truthyStr a then a else b)"

definition createRoute :: "string \<Rightarrow> string \<Rightarrow> config \<Rightarrow> route" where
  "createRoute meth pth cfg =
     \<lparr> method = toLowerCase meth,
       path = pth,
       summary = cfg_summary cfg,
       description = orElse (cfg_description cfg) (cfg_summary cfg),
       tags = (case cfg_tags cfg of None \<Rightarrow> [] | Some ts \<Rightarrow> ts),
       auth = (case cfg_auth cfg of None \<Rightarrow> False | Some a \<Rightarrow> a),
       bodySchema = cfg_body cfg,
       querySchema = cfg_query cfg,
       paramsSchema = cfg_params cfg,
       responseSchema = cfg_response cfg,
       customResponses = (case cfg_responses cfg of None \<Rightarrow> Map.empty | Some rs \<Rightarrow> rs) \<rparr>"

definition api_get :: "string \<Rightarrow> config \<Rightarrow> route" where
  "api_get pth cfg = createRoute ''GET'' pth cfg"

definition api_post :: "string \<Rightarrow> config \<Rightarrow> route" where
  "api_post pth cfg = createRoute ''POST'' pth cfg"

definition api_put :: "string \<Rightarrow> config \<Rightarrow> route" where
  "api_put pth cfg = createRoute ''PUT'' pth cfg"

definition api_patch :: "string \<Rightarrow> config \<Rightarrow> route" where
  "api_patch pth cfg = createRoute ''PATCH'' pth cfg"

definition api_delete :: "string \<Rightarrow> config \<Rightarrow> route" where
  "api_delete pth cfg = createRoute ''DELETE'' pth cfg"

text \<open>The function mapped over the path segments by \<^verbatim>\<open>generateOperationId\<close>.\<close>

definition pascalSegment :: "string \<Rightarrow> string" where
  "pascalSegment p =
     (if startsWith p ''{'' then
        ''By'' @ toUpperCase (charAt0 (slice p 1 (-1))) @ slice p 2 (-1)
      else toUpperCase (charAt0 p) @ sliceFrom p 1)"

definition generateOperationId :: "string \<Rightarrow> string \<Rightarrow> string" where
  "generateOperationId meth pth =
     (let parts = filter (\<lambda>p. p \<noteq> []) (split CHR ''/'' pth);
          name = concat (map pascalSegment parts)
      in toLowerCase meth @ name)"

record parameter =
  p_name :: string
  p_in :: string
  p_required :: bool
  p_schema :: jsval
  p_description :: jsval

text \<open>\<^verbatim>\<open>openApiSchema.required?.includes(name)\<close>; \<open>required\<close> is an array when present.\<close>

definition requiredIncludes :: "obj \<Rightarrow> string \<Rightarrow> bool" where
  "requiredIncludes openApiSchema name =
     (case map_of openApiSchema ''required'' of
        Some (JArr xs) \<Rightarrow> JStr name \<in> set xs
      | _ \<Rightarrow> False)"

text \<open>\<^verbatim>\<open>schema.description || undefined\<close>\<close>

definition descriptionOf :: "jsval \<Rightarrow> jsval" where
  "descriptionOf schema =
     (case schema of
        JObj ps \<Rightarrow> (case map_of ps ''description'' of
                     Some d \<Rightarrow> if truthy d then d else JUndefined
                   | None \<Rightarrow> JUndefined)
      | _ \<Rightarrow> JUndefined)"

definition generateParameters :: "zod option \<Rightarrow> string \<Rightarrow> parameter list" where
  "generateParameters zodSchema location =
     (let openApiSchema = convert zodSchema
      in case map_of openApiSchema ''properties'' of
           Some (JObj properties) \<Rightarrow>
             map (\<lambda>(name, schema).
                    \<lparr> p_name = name,
                      p_in = location,
                      p_required = (requiredIncludes openApiSchema name \<or> location = ''path''),
                      p_schema = schema,
                      p_description = descriptionOf schema \<rparr>) properties
         | _ \<Rightarrow> [])"

definition generateResponseSchema :: "zod \<Rightarrow> obj" where
  "generateResponseSchema responseHint =
     (case responseHint of
        Def tn dsc cs vals val shp uk ty minL maxL vt inner dv opts l r sch \<Rightarrow>
          [(''type'', JStr ''object''),
           (''properties'', JObj
              [(''success'', JObj [(''type'', JStr ''boolean''), (''example'', JBool True)]),
               (''data'', JObj (convert (Some responseHint)))])]
      | NoDef \<Rightarrow>
          [(''type'', JStr ''object''),
           (''properties'', JObj
              [(''success'', JObj [(''type'', JStr ''boolean''), (''example'', JBool True)]),
               (''data'', JObj [(''type'', JStr ''object'')])])])"

definition successCode :: "route \<Rightarrow> string" where
  "successCode r =
     (if method r = ''post'' then ''201'' else if method r = ''delete'' then ''204'' else ''200'')"

definition refTo :: "string \<Rightarrow> jsval" where
  "refTo target = JObj [(''$ref'', JStr target)]"

text \<open>
  The responses of a route are an object used as a dictionary keyed by status code: a map
  from its own keys to their values. A status code names nothing that an object inherits,
  and the order of the keys is not modelled.

  \<^verbatim>\<open>generateResponses\<close> up to, and not including, its last statement: the computed
  responses, keyed by status code.
\<close>

definition computedResponses :: "route \<Rightarrow> (string \<rightharpoonup> jsval)" where
  "computedResponses r =
     (let responses = Map.empty;
          responses =
            (if method r = ''delete'' \<and> responseSchema r = None then
               responses(successCode r \<mapsto> JObj [(''description'', JStr ''Successfully deleted'')])
             else
               responses(successCode r \<mapsto> JObj
                 [(''description'', JStr ''Successful operation''),
                  (''content'', JObj
                     [(''application/json'', JObj
                        [(''schema'',
                          (case responseSchema r of
                             Some hint \<Rightarrow> JObj (generateResponseSchema hint)
                           | None \<Rightarrow> refTo ''#/components/schemas/Success''))])])]));
          responses =
            (if auth r then
               responses(''401'' \<mapsto> refTo ''#/components/responses/UnauthorizedError'',
                         ''403'' \<mapsto> refTo ''#/components/responses/ForbiddenError'')
             else responses);
          responses =
            (if bodySchema r \<noteq> None then
               responses(''422'' \<mapsto> refTo ''#/components/responses/ValidationError'')
             else responses);
          responses =
            (if paramsSchema r \<noteq> None then
               responses(''404'' \<mapsto> refTo ''#/components/responses/NotFoundError'')
             else responses)
      in responses(''500'' \<mapsto> refTo ''#/components/responses/ServerError''))"

text \<open>\<^verbatim>\<open>Object.assign(responses, route.customResponses)\<close> is the last statement.\<close>

definition generateResponses :: "route \<Rightarrow> (string \<rightharpoonup> jsval)" where
  "generateResponses r = computedResponses r ++ customResponses r"

record operation =
  op_summary :: string
  op_description :: "string option"
  op_tags :: "string list"
  operationId :: string
  security :: "jsval option"
  parameters :: "parameter list option"
  requestBody :: "jsval option"
  responses :: "string \<rightharpoonup> jsval"

text \<open>The local \<open>parameters\<close> array of \<^verbatim>\<open>generateOperation\<close>.\<close>

definition routeParameters :: "route \<Rightarrow> parameter list" where
  "routeParameters r =
     (if paramsSchema r \<noteq> None then generateParameters (paramsSchema r) ''path'' else [])
     @ (if querySchema r \<noteq> None then generateParameters (querySchema r) ''query'' else [])"

definition generateOperation :: "route \<Rightarrow> operation" where
  "generateOperation r =
     \<lparr> op_summary =
         (case summary r of
            Some s \<Rightarrow> if s \<noteq> [] then s else toUpperCase (method r) @ '' '' @ path r
          | None \<Rightarrow> toUpperCase (method r) @ '' '' @ path r),
       op_description = description r,
       op_tags = (if length (tags r) > 0 then tags r else [''Default'']),
       operationId = generateOperationId (method r) (path r),
       security = (if auth r then Some (JArr [JObj [(''BearerAuth'', JArr [])]]) else None),
       parameters = (if length (routeParameters r) > 0 then Some (routeParameters r) else None),
       requestBody =
         (if bodySchema r \<noteq> None \<and> method r \<in> set [''post'', ''put'', ''patch''] then
            Some (JObj [(''required'', JBool True),
                        (''content'', JObj
                           [(''application/json'',
                             JObj [(''schema'', JObj (convert (bodySchema r)))])])])
          else None),
       responses = generateResponses r \<rparr>"

text \<open>
  \<^verbatim>\<open>generateDocs\<close> starts from \<^verbatim>\<open>paths = {}\<close>, an ordinary object whose prototype is
  \<^verbatim>\<open>Object.prototype\<close>, and both \<^verbatim>\<open>paths[route.path]\<close> and the assignment
  \<^verbatim>\<open>paths[route.path][route.method] = ...\<close> go through the prototype chain. The names under
  which \<^verbatim>\<open>Object.prototype\<close> holds a built-in function (ECMAScript with its Annex B, as
  Node.js has it) are listed here; under \<^verbatim>\<open>__proto__\<close> an object yields its prototype.
\<close>

definition objectPrototypeFunctions :: "string list" where
  "objectPrototypeFunctions =
     [''constructor'', ''hasOwnProperty'', ''isPrototypeOf'', ''propertyIsEnumerable'',
      ''toLocaleString'', ''toString'', ''valueOf'', ''__defineGetter__'', ''__defineSetter__'',
      ''__lookupGetter__'', ''__lookupSetter__'']"

text \<open>
  What the loop has written, and where. \<open>own\<close> holds the own properties of \<^verbatim>\<open>paths\<close>, each
  of them an object \<^verbatim>\<open>{}\<close> created by the loop with the operations assigned to it.
  \<open>onPrototype\<close> holds the operations that the loop has assigned to properties of
  \<^verbatim>\<open>Object.prototype\<close>, each with the properties that were later assigned onto that operation
  object. \<open>onFunction\<close> holds the operations assigned onto the built-in functions, under
  the name \<^verbatim>\<open>Object.prototype\<close> has for the function. The state is that of a first call, when
  nothing has been written to \<^verbatim>\<open>Object.prototype\<close> yet.

  \<^verbatim>\<open>route.method\<close> is the name of one of the helpers \<^verbatim>\<open>api.get\<close>, \<^verbatim>\<open>api.post\<close>, \<^verbatim>\<open>api.put\<close>,
  \<^verbatim>\<open>api.patch\<close>, \<^verbatim>\<open>api.delete\<close> that built the route. None of these names a built-in
  property or is read anywhere by the module, so an assignment \<^verbatim>\<open>target[route.method] = ...\<close>
  creates or overwrites an own data property of the target and has no other effect.
\<close>

record docs =
  own :: "string \<rightharpoonup> (string \<rightharpoonup> operation)"
  onPrototype :: "string \<rightharpoonup> operation \<times> (string \<rightharpoonup> operation)"
  onFunction :: "string \<rightharpoonup> (string \<rightharpoonup> operation)"

text \<open>The object that \<^verbatim>\<open>paths[p]\<close> evaluates to.\<close>

datatype target =
    OwnEntry string
  | InheritedOperation string
  | ThePrototype
  | PrototypeFunction string

text \<open>\<^verbatim>\<open>paths[p]\<close>: an own property first, then a property of \<^verbatim>\<open>Object.prototype\<close>; \<open>None\<close>
  is \<^verbatim>\<open>undefined\<close>.\<close>

definition pathValue :: "docs \<Rightarrow> string \<Rightarrow> target option" where
  "pathValue paths p =
     (if own paths p \<noteq> None then Some (OwnEntry p)
      else if onPrototype paths p \<noteq> None then Some (InheritedOperation p)
      else if p = ''__proto__'' then Some ThePrototype
      else if p \<in> set objectPrototypeFunctions then Some (PrototypeFunction p)
      else None)"

text \<open>\<^verbatim>\<open>target[m] = operation\<close>\<close>

fun assign :: "target \<Rightarrow> string \<Rightarrow> operation \<Rightarrow> docs \<Rightarrow> docs" where
  "assign (OwnEntry p) m opn paths =
     paths\<lparr>own := (own paths)
        (p \<mapsto> (case own paths p of None \<Rightarrow> Map.empty | Some methods \<Rightarrow> methods)(m \<mapsto> opn))\<rparr>"
| "assign (InheritedOperation k) m opn paths =
     (case onPrototype paths k of
        None \<Rightarrow> paths
      | Some (inherited, added) \<Rightarrow>
          paths\<lparr>onPrototype := (onPrototype paths)(k \<mapsto> (inherited, added(m \<mapsto> opn)))\<rparr>)"
| "assign ThePrototype m opn paths =
     paths\<lparr>onPrototype := (onPrototype paths)(m \<mapsto> (opn, Map.empty))\<rparr>"
| "assign (PrototypeFunction f) m opn paths =
     paths\<lparr>onFunction := (onFunction paths)
        (f \<mapsto> (case onFunction paths f of None \<Rightarrow> Map.empty | Some props \<Rightarrow> props)(m \<mapsto> opn))\<rparr>"

text \<open>The body of the loop of \<^verbatim>\<open>generateDocs\<close>.\<close>

definition addRoute :: "route \<Rightarrow> docs \<Rightarrow> docs" where
  "addRoute r paths =
     (let paths = (if pathValue paths (path r) = None
                   then paths\<lparr>own := (own paths)(path r \<mapsto> Map.empty)\<rparr> else paths)
      in case pathValue paths (path r) of
           None \<Rightarrow> paths
         | Some t \<Rightarrow> assign t (method r) (generateOperation r) paths)"

definition generateDocs :: "route list \<Rightarrow> docs" where
  "generateDocs routes =
     fold addRoute routes \<lparr>own = Map.empty, onPrototype = Map.empty, onFunction = Map.empty\<rparr>"

text \<open>Reading the result. \<open>ownOperationAt\<close> looks at own properties only, as
  \<^verbatim>\<open>Object.entries\<close> and \<^verbatim>\<open>JSON.stringify\<close> do; \<open>operationAt\<close> is \<^verbatim>\<open>paths[p]?.[m]\<close>, which
  also finds what is inherited.\<close>

definition ownOperationAt :: "docs \<Rightarrow> string \<Rightarrow> string \<Rightarrow> operation option" where
  "ownOperationAt paths p m = (case own paths p of None \<Rightarrow> None | Some methods \<Rightarrow> methods m)"

definition inheritedAt :: "docs \<Rightarrow> string \<Rightarrow> operation option" where
  "inheritedAt paths m = map_option fst (onPrototype paths m)"

definition orInherited :: "docs \<Rightarrow> string \<Rightarrow> operation option \<Rightarrow> operation option" where
  "orInherited paths m found = (case found of Some opn \<Rightarrow> Some opn | None \<Rightarrow> inheritedAt paths m)"

definition operationAt :: "docs \<Rightarrow> string \<Rightarrow> string \<Rightarrow> operation option" where
  "operationAt paths p m =
     (case pathValue paths p of
        None \<Rightarrow> None
      | Some (OwnEntry k) \<Rightarrow> orInherited paths m (ownOperationAt paths k m)
      | Some (InheritedOperation k) \<Rightarrow>
          orInherited paths m
            (case onPrototype paths k of None \<Rightarrow> None | Some (inherited, added) \<Rightarrow> added m)
      | Some ThePrototype \<Rightarrow> inheritedAt paths m
      | Some (PrototypeFunction f) \<Rightarrow>
          orInherited paths m
            (case onFunction paths f of None \<Rightarrow> None | Some props \<Rightarrow> props m))"

section \<open>Vocabulary of the specification\<close>

text \<open>The case labels of the \<^verbatim>\<open>switch\<close> in \<^verbatim>\<open>convert\<close>: the enumerated variants.\<close>

definition knownTypeNames :: "string list" where
  "knownTypeNames =
     [''ZodString'', ''ZodNumber'', ''ZodInt'', ''ZodBoolean'', ''ZodDate'', ''ZodEnum'',
      ''ZodNativeEnum'', ''ZodLiteral'', ''ZodObject'', ''ZodArray'', ''ZodRecord'',
      ''ZodOptional'', ''ZodNullable'', ''ZodDefault'', ''ZodUnion'', ''ZodIntersection'',
      ''ZodEffects'', ''ZodAny'', ''ZodUnknown'', ''ZodVoid'', ''ZodUndefined'']"

text \<open>
  The operation identifier as the specification words it: a segment is capitalized, and a
  segment written as a placeholder \<^verbatim>\<open>{name}\<close> becomes \<^verbatim>\<open>By\<close> followed by the capitalized name.
\<close>

definition capitalize :: "string \<Rightarrow> string" where
  "capitalize s = (case s of [] \<Rightarrow> [] | c # cs \<Rightarrow> upperChar c # cs)"

definition isPlaceholder :: "string \<Rightarrow> bool" where
  "isPlaceholder seg = (2 \<le> length seg \<and> hd seg = CHR ''{'' \<and> last seg = CHR ''}'')"

definition placeholderName :: "string \<Rightarrow> string" where
  "placeholderName seg = butlast (tl seg)"

definition spec_segment :: "string \<Rightarrow> string" where
  "spec_segment seg =
     (if isPlaceholder seg then ''By'' @ capitalize (placeholderName seg) else capitalize seg)"

definition spec_operationId :: "string \<Rightarrow> string \<Rightarrow> string" where
  "spec_operationId meth pth =
     toLowerCase meth @ concat (map spec_segment (filter (\<lambda>seg. seg \<noteq> []) (split CHR ''/'' pth)))"

text \<open>The methods of the helpers \<^verbatim>\<open>api.get\<close>, ..., \<^verbatim>\<open>api.delete\<close>, as \<^verbatim>\<open>createRoute\<close> stores them.\<close>

definition apiMethods :: "string list" where
  "apiMethods = [''get'', ''post'', ''put'', ''patch'', ''delete'']"

text \<open>A path that names nothing an object inherits from \<^verbatim>\<open>Object.prototype\<close>.\<close>

definition plainPath :: "string \<Rightarrow> bool" where
  "plainPath p = (p \<noteq> ''__proto__'' \<and> p \<notin> set objectPrototypeFunctions)"

section \<open>Sample inputs\<close>

text \<open>A node whose \<^verbatim>\<open>_def\<close> has a type name and a description only.\<close>

definition leaf :: "string \<Rightarrow> string option \<Rightarrow> zod" where
  "leaf tn d =
     Def (Some tn) d None JUndefined JUndefined [] None None None None None None None [] None None None"

text \<open>A node whose \<^verbatim>\<open>_def\<close> has no type name: \<^verbatim>\<open>{_def: {}}\<close>, or with a description.\<close>

definition untyped :: "string option \<Rightarrow> zod" where
  "untyped d =
     Def None d None JUndefined JUndefined [] None None None None None None None [] None None None"

text \<open>A node with an \<^verbatim>\<open>innerType\<close>, as \<^verbatim>\<open>.optional()\<close>, \<^verbatim>\<open>.nullable()\<close> and \<^verbatim>\<open>.default()\<close> build.\<close>

definition wrapping :: "string \<Rightarrow> string option \<Rightarrow> zod option \<Rightarrow> jsval option \<Rightarrow> zod" where
  "wrapping tn d inner dv =
     Def (Some tn) d None JUndefined JUndefined [] None None None None None inner dv [] None None None"

text \<open>\<^verbatim>\<open>z.object(shape)\<close>, whose unknown-keys policy is \<^verbatim>\<open>strip\<close>.\<close>

definition objectOf :: "(string \<times> zod) list \<Rightarrow> zod" where
  "objectOf shp =
     Def (Some ''ZodObject'') None None JUndefined JUndefined shp (Some ''strip'') None None None
       None None None [] None None None"

text \<open>\<^verbatim>\<open>z.string()\<close> with its checks.\<close>

definition stringOf :: "check list \<Rightarrow> zod" where
  "stringOf cs =
     Def (Some ''ZodString'') None (Some cs) JUndefined JUndefined [] None None None None
       None None None [] None None None"

text \<open>\<^verbatim>\<open>z.union(options)\<close>\<close>

definition unionOf :: "zod option list \<Rightarrow> zod" where
  "unionOf opts =
     Def (Some ''ZodUnion'') None None JUndefined JUndefined [] None None None None
       None None None opts None None None"

text \<open>A transform or refinement around \<^verbatim>\<open>_def.schema\<close>.\<close>

definition effectsOf :: "zod option \<Rightarrow> zod" where
  "effectsOf inner =
     Def (Some ''ZodEffects'') None None JUndefined JUndefined [] None None None None
       None None None [] None None inner"

text \<open>The configuration object \<^verbatim>\<open>{}\<close>.\<close>

definition emptyConfig :: config where
  "emptyConfig =
     \<lparr> cfg_summary = None, cfg_description = None, cfg_tags = None, cfg_auth = None,
       cfg_body = None, cfg_query = None, cfg_params = None, cfg_response = None,
       cfg_responses = None \<rparr>"

section \<open>Basic facts\<close>

declare convert.simps(2) [simp del]

lemma map_of_setProp: "map_of (setProp k v ps) k' = (if k' = k then Some v else map_of ps k')"
  by (induction ps) auto

lemma map_of_addDescription:
  "k \<noteq> ''description'' \<Longrightarrow> map_of (addDescription d schema) k = map_of schema k"
  by (simp add: addDescription_def map_of_setProp split: option.splits)

text \<open>The arms of the \<^verbatim>\<open>switch\<close> that the properties below are about.\<close>

lemma convert_NoDef: "convert (Some NoDef) = [(''type'', JStr ''object'')]"
  by (simp add: convert.simps(2))

lemma convert_object:
  "def_typeName z = Some ''ZodObject'' \<Longrightarrow>
   convert (Some z) = addDescription (def_description z) (convertObject z)"
  by (cases z) (simp_all add: convert.simps(2))

lemma convert_optional:
  "def_typeName z = Some ''ZodOptional'' \<Longrightarrow>
   convert (Some z) = addDescription (def_description z) (convert (def_innerType z))"
  by (cases z) (simp_all add: convert.simps(2))

lemma convert_string:
  "def_typeName z = Some ''ZodString'' \<Longrightarrow>
   convert (Some z) = addDescription (def_description z) (convertString z)"
  by (cases z) (simp_all add: convert.simps(2))

lemma convert_union:
  "def_typeName z = Some ''ZodUnion'' \<Longrightarrow>
   convert (Some z) = addDescription (def_description z)
     [(''oneOf'', JArr (map (\<lambda>opt. JObj (convert opt)) (def_options z)))]"
  by (cases z) (simp_all add: convert.simps(2))

lemma convert_unknown:
  "z \<noteq> NoDef \<Longrightarrow> def_typeName z \<notin> Some ` set knownTypeNames \<Longrightarrow>
   convert (Some z) = addDescription (def_description z) [(''type'', JStr ''string'')]"
  by (cases z) (simp_all add: convert.simps(2) knownTypeNames_def)

lemma required_objectSchema:
  "map_of (objectSchema props req uk) ''required'' =
     (if req = [] then None else Some (JArr (map JStr req)))"
  by (simp add: objectSchema_def Let_def map_of_setProp)

text \<open>The loop of \<^verbatim>\<open>convertObject\<close>: what it leaves in \<open>required\<close>, whatever it does to
  \<open>properties\<close>.\<close>

lemma loop_required:
  "snd (fold (\<lambda>(key, v) (properties, required).
                (f key v properties,
                 if \<not> isOptional v then required @ [key] else required)) entries (ps, req))
   = req @ map fst (filter (\<lambda>(key, v). \<not> isOptional v) entries)"
  by (induction entries arbitrary: ps req) (auto split: prod.splits)

lemma required_convertObject:
  "z \<noteq> NoDef \<Longrightarrow> map_of (convertObject z) ''required'' =
     (let names = map fst (filter (\<lambda>(key, v). \<not> isOptional v)
                    (objectEntries (objectLiteral (def_shape z))))
      in if names = [] then None else Some (JArr (map JStr names)))"
proof (cases z)
  case NoDef
  moreover assume "z \<noteq> NoDef"
  ultimately show ?thesis by simp
next
  case (Def tn dsc cs vals val shp uk ty minL maxL vt inner dv opts l r sch)
  have "snd (fold (\<lambda>(key, v) (properties, required).
                (setProp key (JObj (convert (Some v))) properties,
                 if \<not> isOptional v then required @ [key] else required))
              (objectEntries (objectLiteral shp)) ([], []))
        = map fst (filter (\<lambda>(key, v). \<not> isOptional v) (objectEntries (objectLiteral shp)))"
    using loop_required [where f = "\<lambda>key v ps. setProp key (JObj (convert (Some v))) ps"
        and req = "[]" and entries = "objectEntries (objectLiteral shp)"]
    by simp
  with Def show ?thesis
    by (simp add: split_beta required_objectSchema)
qed

text \<open>An object literal with distinct names, none of them an array index, is enumerated
  in the order written.\<close>

lemma setProp_fresh: "k \<notin> fst ` set acc \<Longrightarrow> setProp k v acc = acc @ [(k, v)]"
  by (induction acc) auto

lemma literal_distinct:
  "distinct (map fst (acc @ written)) \<Longrightarrow>
   fold (\<lambda>(k, v). setProp k v) written acc = acc @ written"
proof (induction written arbitrary: acc)
  case Nil
  show ?case by simp
next
  case (Cons d ds)
  from Cons.prems have fresh: "fst d \<notin> fst ` set acc" by auto
  from Cons.prems have "distinct (map fst ((acc @ [d]) @ ds))" by simp
  from Cons.IH [OF this] fresh show ?case
    by (cases d) (simp add: setProp_fresh)
qed

lemma objectLiteral_distinct: "distinct (map fst written) \<Longrightarrow> objectLiteral written = written"
  using literal_distinct [of "[]" written] by (simp add: objectLiteral_def)

lemma objectEntries_names:
  assumes "\<forall>k \<in> fst ` set created. \<not> isArrayIndex k"
  shows "objectEntries created = created"
proof -
  from assms have "filter (\<lambda>p. isArrayIndex (fst p)) created = []"
    by (auto simp add: filter_empty_conv)
  moreover from assms have "filter (\<lambda>p. \<not> isArrayIndex (fst p)) created = created"
    by (auto simp add: filter_id_conv)
  ultimately show ?thesis by (simp add: objectEntries_def)
qed

lemmas entries_eval =
  objectEntries_def objectLiteral_def isArrayIndex_def isDigit_def indexValue_def

lemma properties_stringCheck:
  "map_of (stringCheck c schema) ''properties'' = map_of schema ''properties''"
  by (simp add: stringCheck_def map_of_setProp)

lemma properties_fold_stringCheck:
  "map_of (fold stringCheck cs schema) ''properties'' = map_of schema ''properties''"
  by (induction cs arbitrary: schema) (simp_all add: properties_stringCheck)

text \<open>Letters.\<close>

lemma upperChar_lowerChar: "upperChar (lowerChar c) = upperChar c"
proof -
  define n where "n = (of_char c :: nat)"
  show ?thesis
  proof (cases "65 \<le> n \<and> n \<le> 90")
    case True
    then have "lowerChar c = char_of (n + 32)"
      by (simp add: lowerChar_def n_def)
    moreover have "(of_char (char_of (n + 32) :: char) :: nat) = n + 32"
      using True by simp
    moreover have "char_of n = c"
      by (simp add: n_def)
    ultimately show ?thesis
      using True by (simp add: upperChar_def n_def[symmetric])
  next
    case False
    then show ?thesis
      by (auto simp add: lowerChar_def n_def[symmetric])
  qed
qed

lemma toUpperCase_toLowerCase: "toUpperCase (toLowerCase s) = toUpperCase s"
  by (simp add: toUpperCase_def toLowerCase_def upperChar_lowerChar)

lemma toLowerCase_methods:
  "toLowerCase ''GET'' = ''get''" "toLowerCase ''POST'' = ''post''" "toLowerCase ''PUT'' = ''put''"
  "toLowerCase ''PATCH'' = ''patch''" "toLowerCase ''DELETE'' = ''delete''"
  by code_simp+

lemma toUpperCase_methods:
  "toUpperCase ''get'' = ''GET''" "toUpperCase ''GET'' = ''GET''"
  by code_simp+

lemma createRoute_fields:
  "method (createRoute m p c) = toLowerCase m"
  "path (createRoute m p c) = p"
  "summary (createRoute m p c) = cfg_summary c"
  "auth (createRoute m p c) = (case cfg_auth c of None \<Rightarrow> False | Some a \<Rightarrow> a)"
  "bodySchema (createRoute m p c) = cfg_body c"
  "querySchema (createRoute m p c) = cfg_query c"
  "paramsSchema (createRoute m p c) = cfg_params c"
  "responseSchema (createRoute m p c) = cfg_response c"
  "customResponses (createRoute m p c) = (case cfg_responses c of None \<Rightarrow> Map.empty | Some rs \<Rightarrow> rs)"
  by (simp_all add: createRoute_def)

text \<open>The string operations of \<^verbatim>\<open>generateOperationId\<close> in list terms.\<close>

lemma nat_int_pred: "nat (int n - 1) = n - 1"
  by arith

lemma startsWith_brace: "startsWith seg ''{'' = (seg \<noteq> [] \<and> hd seg = CHR ''{'')"
  by (cases seg) (simp_all add: startsWith_def)

lemma slice_1_neg1: "slice seg 1 (-1) = butlast (tl seg)"
  by (cases seg) (simp_all add: slice_def Let_def butlast_conv_take nat_int_pred)

lemma slice_2_neg1: "slice seg 2 (-1) = tl (butlast (tl seg))"
proof (cases seg)
  case Nil
  then show ?thesis by (simp add: slice_def)
next
  case (Cons a as)
  show ?thesis
  proof (cases as)
    case Nil
    with Cons show ?thesis by (simp add: slice_def)
  next
    case (Cons b bs)
    with \<open>seg = a # as\<close> show ?thesis
      by (simp add: slice_def Let_def butlast_conv_take tl_take drop_Suc min_def nat_int_pred)
  qed
qed

lemma sliceFrom_1: "sliceFrom seg 1 = tl seg"
  by (cases seg) (simp_all add: sliceFrom_def slice_def Let_def)

lemma capitalize_split: "toUpperCase (charAt0 s) @ tl s = capitalize s"
  by (cases s) (simp_all add: toUpperCase_def charAt0_def capitalize_def)

lemma pascalSegment_eq:
  "pascalSegment seg =
     (if startsWith seg ''{'' then ''By'' @ capitalize (butlast (tl seg)) else capitalize seg)"
  by (simp add: pascalSegment_def slice_1_neg1 slice_2_neg1 sliceFrom_1 capitalize_split)

lemma pascalSegment_spec:
  assumes "seg \<noteq> []" and "startsWith seg ''{'' \<longrightarrow> isPlaceholder seg"
  shows "pascalSegment seg = spec_segment seg"
proof (cases "startsWith seg ''{''")
  case True
  with assms show ?thesis
    by (simp add: pascalSegment_eq spec_segment_def placeholderName_def)
next
  case False
  with assms(1) have "\<not> isPlaceholder seg"
    by (simp add: startsWith_brace isPlaceholder_def)
  with False show ?thesis
    by (simp add: pascalSegment_eq spec_segment_def)
qed

text \<open>The loop of \<^verbatim>\<open>generateDocs\<close> on routes with plain paths: nothing is written outside
  \<^verbatim>\<open>paths\<close>.\<close>

lemma addRoute_plain:
  assumes "plainPath (path r)" and "onPrototype paths = Map.empty"
  shows "addRoute r paths =
     paths\<lparr>own := (own paths)
        (path r \<mapsto> (case own paths (path r) of None \<Rightarrow> Map.empty | Some methods \<Rightarrow> methods)
                       (method r \<mapsto> generateOperation r))\<rparr>"
  using assms
  by (cases "own paths (path r)")
     (simp_all add: addRoute_def pathValue_def plainPath_def Let_def)

lemma generateDocs_snoc: "generateDocs (routes @ [r]) = addRoute r (generateDocs routes)"
  by (simp add: generateDocs_def)

lemma plain_untouched:
  "\<forall>r \<in> set routes. plainPath (path r) \<Longrightarrow>
   onPrototype (generateDocs routes) = Map.empty \<and> onFunction (generateDocs routes) = Map.empty"
proof (induction routes rule: rev_induct)
  case Nil
  show ?case by (simp add: generateDocs_def)
next
  case (snoc r routes)
  then have "plainPath (path r)" and "onPrototype (generateDocs routes) = Map.empty"
      and "onFunction (generateDocs routes) = Map.empty"
    by simp_all
  then show ?case
    by (simp add: generateDocs_snoc addRoute_plain)
qed

lemma ownOperationAt_addRoute:
  assumes "plainPath (path r)" and "onPrototype paths = Map.empty"
  shows "ownOperationAt (addRoute r paths) p m =
     (if path r = p \<and> method r = m then Some (generateOperation r) else ownOperationAt paths p m)"
  by (auto simp add: addRoute_plain [OF assms] ownOperationAt_def split: option.splits)

lemma plain_own:
  "\<forall>r \<in> set routes. plainPath (path r) \<Longrightarrow>
   ownOperationAt (generateDocs routes) p m =
     (let same = filter (\<lambda>r. path r = p \<and> method r = m) routes
      in if same = [] then None else Some (generateOperation (last same)))"
proof (induction routes rule: rev_induct)
  case Nil
  show ?case by (simp add: generateDocs_def ownOperationAt_def)
next
  case (snoc r routes)
  then have plain: "plainPath (path r)" and rest: "\<forall>r \<in> set routes. plainPath (path r)"
    by simp_all
  from plain_untouched [OF rest] have "onPrototype (generateDocs routes) = Map.empty"
    by simp
  from ownOperationAt_addRoute [OF plain this] snoc.IH [OF rest] show ?case
    by (simp add: generateDocs_snoc Let_def)
qed

lemma operationAt_plain:
  assumes "onPrototype paths = Map.empty" and "onFunction paths = Map.empty"
  shows "operationAt paths p m = ownOperationAt paths p m"
  using assms
  by (auto simp add: operationAt_def pathValue_def orInherited_def inheritedAt_def
      ownOperationAt_def split: option.splits)

section \<open>The converter\<close>

text \<open>
  C1, amended. For an object node, the \<open>required\<close> list of the converted schema holds exactly
  the names of the properties whose own type name is none of \<^verbatim>\<open>ZodOptional\<close>, \<^verbatim>\<open>ZodNullable\<close>,
  \<^verbatim>\<open>ZodDefault\<close> (the property's own node only: a wrapper further inside is not looked at),
  in the order in which \<^verbatim>\<open>Object.entries\<close> enumerates the shape: the names that are array
  indices first, in ascending numeric order, then the other names in the order of their
  declaration. That is the order of declaration when no name of the shape is an array
  index. When there is no such property the schema has no \<open>required\<close> key at all.
\<close>

theorem object_required:
  assumes "def_typeName z = Some ''ZodObject''"
  shows "map_of (convert (Some z)) ''required'' =
     (let names = map fst (filter (\<lambda>(key, v).
                      def_typeName v \<noteq> Some ''ZodOptional''
                    \<and> def_typeName v \<noteq> Some ''ZodNullable''
                    \<and> def_typeName v \<noteq> Some ''ZodDefault'')
                    (objectEntries (objectLiteral (def_shape z))))
      in if names = [] then None else Some (JArr (map JStr names)))
   \<and> (distinct (map fst (def_shape z)) \<and> (\<forall>k \<in> fst ` set (def_shape z). \<not> isArrayIndex k)
        \<longrightarrow> objectEntries (objectLiteral (def_shape z)) = def_shape z)"
proof -
  from assms have nd: "z \<noteq> NoDef" by auto
  have "map_of (convert (Some z)) ''required'' = map_of (convertObject z) ''required''"
    using assms by (simp add: convert_object map_of_addDescription)
  then have "map_of (convert (Some z)) ''required'' =
     (let names = map fst (filter (\<lambda>(key, v).
                      def_typeName v \<noteq> Some ''ZodOptional''
                    \<and> def_typeName v \<noteq> Some ''ZodNullable''
                    \<and> def_typeName v \<noteq> Some ''ZodDefault'')
                    (objectEntries (objectLiteral (def_shape z))))
      in if names = [] then None else Some (JArr (map JStr names)))"
    using nd by (simp add: required_convertObject isOptional_def)
  then show ?thesis
    by (simp add: objectLiteral_distinct objectEntries_names)
qed

text \<open>An object with a plain property, an optional one, a refinement around an optional
  one (required: only the outermost node counts), a property named \<^verbatim>\<open>7\<close> (enumerated first)
  and a defaulted one; and an object whose only property is nullable.\<close>

theorem object_required_witness:
  "map_of (convert (Some (objectOf
      [(''id'', stringOf []),
       (''nick'', wrapping ''ZodOptional'' None (Some (stringOf [])) None),
       (''bio'', effectsOf (Some (wrapping ''ZodOptional'' None (Some (stringOf [])) None))),
       (''7'', leaf ''ZodNumber'' None),
       (''age'', wrapping ''ZodDefault'' None (Some (leaf ''ZodNumber'' None)) (Some (JNum 18)))])))
      ''required''
    = Some (JArr [JStr ''7'', JStr ''id'', JStr ''bio''])
   \<and> map_of (convert (Some (objectOf
      [(''nick'', wrapping ''ZodNullable'' None (Some (stringOf [])) None)]))) ''required'' = None
   \<and> objectEntries (objectLiteral (def_shape (objectOf
      [(''nick'', wrapping ''ZodNullable'' None (Some (stringOf [])) None)])))
     = [(''nick'', wrapping ''ZodNullable'' None (Some (stringOf [])) None)]"
  using object_required [of "objectOf
      [(''id'', stringOf []),
       (''nick'', wrapping ''ZodOptional'' None (Some (stringOf [])) None),
       (''bio'', effectsOf (Some (wrapping ''ZodOptional'' None (Some (stringOf [])) None))),
       (''7'', leaf ''ZodNumber'' None),
       (''age'', wrapping ''ZodDefault'' None (Some (leaf ''ZodNumber'' None)) (Some (JNum 18)))]"]
    object_required [of "objectOf [(''nick'', wrapping ''ZodNullable'' None (Some (stringOf [])) None)]"]
  by (simp add: objectOf_def wrapping_def stringOf_def leaf_def effectsOf_def entries_eval)

text \<open>\<^verbatim>\<open>z.object({b: z.string(), 2: z.string()})\<close>: declared \<^verbatim>\<open>b\<close> then \<^verbatim>\<open>2\<close>, required
  \<^verbatim>\<open>["2", "b"]\<close>.\<close>

theorem declaration_order_counterexample:
  "def_typeName (objectOf [(''b'', stringOf []), (''2'', stringOf [])]) = Some ''ZodObject''
   \<and> map fst (def_shape (objectOf [(''b'', stringOf []), (''2'', stringOf [])])) = [''b'', ''2'']
   \<and> map_of (convert (Some (objectOf [(''b'', stringOf []), (''2'', stringOf [])]))) ''required''
       = Some (JArr [JStr ''2'', JStr ''b''])
   \<and> map_of (convert (Some (objectOf [(''b'', stringOf []), (''2'', stringOf [])]))) ''required''
       \<noteq> Some (JArr [JStr ''b'', JStr ''2''])"
  by (simp add: objectOf_def stringOf_def convert.simps(2) addDescription_def objectSchema_def
      isOptional_def entries_eval)

text \<open>
  C2, amended. An input that is absent, or that has no \<^verbatim>\<open>_def\<close>, converts to
  \<^verbatim>\<open>{type: "object"}\<close>. A node with a \<^verbatim>\<open>_def\<close> whose type name is missing or is none of the
  enumerated variants converts to \<^verbatim>\<open>{type: "string"}\<close> when it has no (non-empty) description,
  and to \<^verbatim>\<open>{type: "string", description: d}\<close> when it carries the description \<open>d\<close>. The
  conversion is a total function, so neither case fails.
\<close>

theorem convert_fallbacks:
  "convert None = [(''type'', JStr ''object'')]
   \<and> convert (Some NoDef) = [(''type'', JStr ''object'')]
   \<and> (z \<noteq> NoDef \<and> def_typeName z \<notin> Some ` set knownTypeNames \<longrightarrow>
        convert (Some z) =
          (case def_description z of
             None \<Rightarrow> [(''type'', JStr ''string'')]
           | Some d \<Rightarrow> if d = [] then [(''type'', JStr ''string'')]
                       else [(''type'', JStr ''string''), (''description'', JStr d)]))"
  by (simp add: convert_NoDef convert_unknown addDescription_def split: option.splits)

theorem convert_fallbacks_witness:
  "convert (Some (untyped None)) = [(''type'', JStr ''string'')]
   \<and> convert (Some (leaf ''ZodBigInt'' None)) = [(''type'', JStr ''string'')]
   \<and> convert (Some (leaf ''ZodBigInt'' (Some ''a counter''))) =
       [(''type'', JStr ''string''), (''description'', JStr ''a counter'')]"
  using convert_fallbacks [of "untyped None"]
    convert_fallbacks [of "leaf ''ZodBigInt'' None"]
    convert_fallbacks [of "leaf ''ZodBigInt'' (Some ''a counter'')"]
  by (simp add: leaf_def untyped_def knownTypeNames_def)

text \<open>Two inputs. \<^verbatim>\<open>{_def: {}}\<close> lacks the discriminant and does not convert to
  \<^verbatim>\<open>{type: "object"}\<close>: the guard of \<^verbatim>\<open>convert\<close> lets every value with a \<^verbatim>\<open>_def\<close> through to the
  \<^verbatim>\<open>switch\<close>, whose \<^verbatim>\<open>default\<close> arm takes it. A node of a variant that is not enumerated and
  that carries a description does not convert to the bare \<^verbatim>\<open>{type: "string"}\<close>.\<close>

theorem fallback_counterexample:
  "def_typeName (untyped None) = None
   \<and> convert (Some (untyped None)) \<noteq> [(''type'', JStr ''object'')]
   \<and> def_typeName (leaf ''ZodBigInt'' (Some ''a counter'')) = Some ''ZodBigInt''
   \<and> ''ZodBigInt'' \<notin> set knownTypeNames
   \<and> convert (Some (leaf ''ZodBigInt'' (Some ''a counter''))) \<noteq> [(''type'', JStr ''string'')]"
  by (simp add: leaf_def untyped_def knownTypeNames_def convert.simps(2) addDescription_def)

text \<open>
  C8, amended. Converting an optional wrapper that carries no (non-empty) description of its
  own gives the conversion of the inner node; when the wrapper carries a description, the
  result is the conversion of the inner node with \<open>description\<close> set to the wrapper's.
\<close>

theorem optional_wrapper:
  assumes "def_typeName w = Some ''ZodOptional''"
  shows "convert (Some w) =
     (case def_description w of
        None \<Rightarrow> convert (def_innerType w)
      | Some d \<Rightarrow> if d = [] then convert (def_innerType w)
                  else setProp ''description'' (JStr d) (convert (def_innerType w)))"
  using assms by (simp add: convert_optional addDescription_def split: option.splits)

theorem optional_wrapper_witness:
  "convert (Some (wrapping ''ZodOptional'' None (Some (leaf ''ZodBoolean'' (Some ''flag''))) None))
     = convert (Some (leaf ''ZodBoolean'' (Some ''flag'')))
   \<and> convert (Some (wrapping ''ZodOptional'' (Some ''nick'') (Some (leaf ''ZodBoolean'' (Some ''flag''))) None))
     = setProp ''description'' (JStr ''nick'') (convert (Some (leaf ''ZodBoolean'' (Some ''flag''))))"
  using optional_wrapper [of "wrapping ''ZodOptional'' None (Some (leaf ''ZodBoolean'' (Some ''flag''))) None"]
    optional_wrapper [of "wrapping ''ZodOptional'' (Some ''nick'') (Some (leaf ''ZodBoolean'' (Some ''flag''))) None"]
  by (simp add: wrapping_def)

text \<open>An optional wrapper described as \<^verbatim>\<open>nick\<close> around a boolean without description:
  \<^verbatim>\<open>{type: "boolean", description: "nick"}\<close> against \<^verbatim>\<open>{type: "boolean"}\<close>.\<close>

theorem optional_wrapper_counterexample:
  "def_typeName (wrapping ''ZodOptional'' (Some ''nick'') (Some (leaf ''ZodBoolean'' None)) None)
     = Some ''ZodOptional''
   \<and> def_innerType (wrapping ''ZodOptional'' (Some ''nick'') (Some (leaf ''ZodBoolean'' None)) None)
     = Some (leaf ''ZodBoolean'' None)
   \<and> convert (Some (wrapping ''ZodOptional'' (Some ''nick'') (Some (leaf ''ZodBoolean'' None)) None))
     \<noteq> convert (Some (leaf ''ZodBoolean'' None))"
  by (simp add: wrapping_def leaf_def convert.simps(2) addDescription_def)

section \<open>The route documentation helper\<close>

text \<open>
  C3. For a route with the auth flag set and a body schema, the computed responses (before
  the caller's overrides are assigned) have exactly the keys: the success code, which is
  \<^verbatim>\<open>201\<close> for the method \<^verbatim>\<open>post\<close>, \<^verbatim>\<open>204\<close> for \<^verbatim>\<open>delete\<close> and \<^verbatim>\<open>200\<close> otherwise, then \<^verbatim>\<open>401\<close>,
  \<^verbatim>\<open>403\<close>, \<^verbatim>\<open>422\<close>, \<^verbatim>\<open>500\<close>, and \<^verbatim>\<open>404\<close> exactly when a params schema is declared. The key
  \<^verbatim>\<open>500\<close> is there for every route.
\<close>

theorem computed_response_keys:
  "(auth r \<and> bodySchema r \<noteq> None \<longrightarrow>
      dom (computedResponses r) =
        {if method r = ''post'' then ''201'' else if method r = ''delete'' then ''204'' else ''200'',
         ''401'', ''403'', ''422'', ''500''}
        \<union> (if paramsSchema r \<noteq> None then {''404''} else {}))
   \<and> ''500'' \<in> dom (computedResponses r)"
  by (auto simp add: computedResponses_def successCode_def Let_def refTo_def)

theorem computed_response_keys_witness:
  "dom (computedResponses (api_post ''/users''
      (emptyConfig\<lparr>cfg_auth := Some True, cfg_body := Some (objectOf [(''email'', stringOf [])])\<rparr>)))
     = {''201'', ''401'', ''403'', ''422'', ''500''}
   \<and> dom (computedResponses (api_delete ''/users/{id}''
      (emptyConfig\<lparr>cfg_auth := Some True, cfg_body := Some NoDef,
                    cfg_params := Some (objectOf [(''id'', stringOf [])])\<rparr>)))
     = {''404'', ''204'', ''401'', ''403'', ''422'', ''500''}"
  using computed_response_keys [of "api_post ''/users''
      (emptyConfig\<lparr>cfg_auth := Some True, cfg_body := Some (objectOf [(''email'', stringOf [])])\<rparr>)"]
   computed_response_keys [of "api_delete ''/users/{id}''
      (emptyConfig\<lparr>cfg_auth := Some True, cfg_body := Some NoDef,
                    cfg_params := Some (objectOf [(''id'', stringOf [])])\<rparr>)"]
  by (simp add: toLowerCase_methods api_post_def api_delete_def createRoute_fields emptyConfig_def)

text \<open>
  C4, amended. The summary of the operation is the route's summary, or the upper-cased
  method, a space and the path when the route has no (non-empty) summary. The description
  of the operation is the route's description, or else the summary as the route declares
  it: for a route with neither, the summary is \<^verbatim>\<open><METHOD> <path>\<close> and the description is
  absent.
\<close>

theorem summary_description_defaults:
  "op_summary (generateOperation (createRoute meth pth cfg)) =
     (case cfg_summary cfg of
        None \<Rightarrow> toUpperCase meth @ '' '' @ pth
      | Some s \<Rightarrow> if s = [] then toUpperCase meth @ '' '' @ pth else s)
   \<and> op_description (generateOperation (createRoute meth pth cfg)) =
     (case cfg_description cfg of
        None \<Rightarrow> cfg_summary cfg
      | Some d \<Rightarrow> if d = [] then cfg_summary cfg else Some d)"
  by (simp add: generateOperation_def createRoute_def orElse_def toUpperCase_toLowerCase
      split: option.splits)

theorem summary_description_defaults_witness:
  "op_summary (generateOperation (createRoute ''GET'' ''/users'' emptyConfig)) = ''GET /users''
   \<and> op_description (generateOperation (createRoute ''GET'' ''/users'' emptyConfig)) = None
   \<and> op_description (generateOperation (createRoute ''GET'' ''/users''
        (emptyConfig\<lparr>cfg_summary := Some ''List users''\<rparr>))) = Some ''List users''"
  using summary_description_defaults [of "''GET''" "''/users''" emptyConfig]
    summary_description_defaults [of "''GET''" "''/users''" "emptyConfig\<lparr>cfg_summary := Some ''List users''\<rparr>"]
  by (simp add: emptyConfig_def toUpperCase_methods)

text \<open>\<^verbatim>\<open>api.get('/users', {})\<close>: the summary is \<^verbatim>\<open>GET /users\<close>, the description is not.\<close>

theorem description_default_counterexample:
  "cfg_summary emptyConfig = None \<and> cfg_description emptyConfig = None
   \<and> op_summary (generateOperation (api_get ''/users'' emptyConfig)) = ''GET /users''
   \<and> op_description (generateOperation (api_get ''/users'' emptyConfig)) \<noteq> Some ''GET /users''"
  by (simp add: generateOperation_def api_get_def createRoute_def toLowerCase_methods
      toUpperCase_methods emptyConfig_def orElse_def)

text \<open>
  C5, amended. For a route whose method is \<^verbatim>\<open>delete\<close> and whose caller-supplied overrides
  have no entry for \<^verbatim>\<open>204\<close>: without a response hint the response under \<^verbatim>\<open>204\<close> is a
  description and nothing else; with a response hint it is a description and a JSON content
  whose schema is the envelope object with the properties \<open>success\<close> (a boolean) and
  \<open>data\<close>, the converted hint when the hint is a schema node and \<^verbatim>\<open>{type: "object"}\<close>
  otherwise.
\<close>

theorem delete_success_response:
  assumes "method r = ''delete''" and "customResponses r ''204'' = None"
  shows "(responseSchema r = None \<longrightarrow>
            generateResponses r ''204'' = Some (JObj [(''description'', JStr ''Successfully deleted'')]))
       \<and> (responseSchema r = Some hint \<longrightarrow>
            generateResponses r ''204'' = Some (JObj
              [(''description'', JStr ''Successful operation''),
               (''content'', JObj
                  [(''application/json'', JObj
                     [(''schema'', JObj
                        [(''type'', JStr ''object''),
                         (''properties'', JObj
                            [(''success'', JObj [(''type'', JStr ''boolean''), (''example'', JBool True)]),
                             (''data'', JObj (if hint = NoDef then [(''type'', JStr ''object'')]
                                              else convert (Some hint)))])])])])]))"
  using assms
  by (cases hint)
     (simp_all add: generateResponses_def computedResponses_def successCode_def Let_def
        generateResponseSchema_def map_add_def)

theorem delete_success_response_witness:
  "generateResponses (api_delete ''/users/{id}'' emptyConfig) ''204''
     = Some (JObj [(''description'', JStr ''Successfully deleted'')])
   \<and> generateResponses (api_delete ''/users/{id}'' (emptyConfig\<lparr>cfg_response := Some NoDef\<rparr>)) ''204''
     = Some (JObj
         [(''description'', JStr ''Successful operation''),
          (''content'', JObj
             [(''application/json'', JObj
                [(''schema'', JObj
                   [(''type'', JStr ''object''),
                    (''properties'', JObj
                       [(''success'', JObj [(''type'', JStr ''boolean''), (''example'', JBool True)]),
                        (''data'', JObj [(''type'', JStr ''object'')])])])])])])"
  using delete_success_response [of "api_delete ''/users/{id}'' emptyConfig" NoDef]
    delete_success_response [of "api_delete ''/users/{id}'' (emptyConfig\<lparr>cfg_response := Some NoDef\<rparr>)" NoDef]
  by (simp add: api_delete_def createRoute_fields toLowerCase_methods emptyConfig_def)

text \<open>A \<^verbatim>\<open>delete\<close> route without a response hint whose caller overrides \<^verbatim>\<open>204\<close>: the response
  under \<^verbatim>\<open>204\<close> is the override, content included.\<close>

theorem delete_success_response_counterexample:
  "method (api_delete ''/users/{id}''
      (emptyConfig\<lparr>cfg_responses := Some [''204'' \<mapsto> JObj
         [(''description'', JStr ''Removed''), (''content'', JObj [])]]\<rparr>)) = ''delete''
   \<and> responseSchema (api_delete ''/users/{id}''
      (emptyConfig\<lparr>cfg_responses := Some [''204'' \<mapsto> JObj
         [(''description'', JStr ''Removed''), (''content'', JObj [])]]\<rparr>)) = None
   \<and> generateResponses (api_delete ''/users/{id}''
      (emptyConfig\<lparr>cfg_responses := Some [''204'' \<mapsto> JObj
         [(''description'', JStr ''Removed''), (''content'', JObj [])]]\<rparr>)) ''204''
     = Some (JObj [(''description'', JStr ''Removed''), (''content'', JObj [])])"
  by (simp add: api_delete_def createRoute_fields toLowerCase_methods emptyConfig_def
      generateResponses_def)

text \<open>
  C6. A status code that the caller's overrides bind is bound to the override's value in the
  responses of the route, whatever was computed for it. A route without a body schema has
  no computed \<^verbatim>\<open>422\<close>, and an override for \<^verbatim>\<open>422\<close> is still in its responses.
\<close>

theorem overrides_take_precedence:
  "(customResponses r k = Some v \<longrightarrow>
      generateResponses r k = Some v \<and> responses (generateOperation r) k = Some v)
   \<and> (bodySchema r = None \<and> customResponses r ''422'' = Some v' \<longrightarrow>
      computedResponses r ''422'' = None \<and> generateResponses r ''422'' = Some v')"
  by (simp add: generateResponses_def generateOperation_def computedResponses_def
      successCode_def Let_def)

theorem overrides_take_precedence_witness:
  "generateResponses (api_post ''/auth/login''
      (emptyConfig\<lparr>cfg_body := Some (objectOf []),
         cfg_responses := Some [''422'' \<mapsto> JObj [(''description'', JStr ''Invalid credentials'')]]\<rparr>)) ''422''
     = Some (JObj [(''description'', JStr ''Invalid credentials'')])
   \<and> computedResponses (api_get ''/health''
      (emptyConfig\<lparr>cfg_responses := Some [''422'' \<mapsto> JNull]\<rparr>)) ''422'' = None
   \<and> generateResponses (api_get ''/health''
      (emptyConfig\<lparr>cfg_responses := Some [''422'' \<mapsto> JNull]\<rparr>)) ''422'' = Some JNull"
  using overrides_take_precedence [of "api_post ''/auth/login''
      (emptyConfig\<lparr>cfg_body := Some (objectOf []),
         cfg_responses := Some [''422'' \<mapsto> JObj [(''description'', JStr ''Invalid credentials'')]]\<rparr>)"
      "''422''" "JObj [(''description'', JStr ''Invalid credentials'')]" JNull]
    overrides_take_precedence [of "api_get ''/health''
      (emptyConfig\<lparr>cfg_responses := Some [''422'' \<mapsto> JNull]\<rparr>)" "''422''" JNull JNull]
  by (simp add: api_post_def api_get_def createRoute_fields emptyConfig_def)

text \<open>
  C7. The operation identifier is the lower-cased method followed by the segments of the
  path, each non-empty segment capitalized and each placeholder segment \<^verbatim>\<open>{name}\<close> replaced by
  \<^verbatim>\<open>By\<close> and the capitalized name. The code takes every segment that begins with an opening
  brace for a placeholder and strips its first and its last character: for \<^verbatim>\<open>GET\<close> and
  \<^verbatim>\<open>/files/{id}.json\<close> it returns \<^verbatim>\<open>getFilesById}.jso\<close>, where the segment \<^verbatim>\<open>{id}.json\<close>, not a
  placeholder segment, is to be capitalized as it stands.
\<close>

theorem operationId_unclosed_segment:
  "generateOperationId ''GET'' ''/files/{id}.json'' = ''getFilesById}.jso''
   \<and> spec_operationId ''GET'' ''/files/{id}.json'' = ''getFiles{id}.json''"
  by code_simp

text \<open>
  On every path in which each segment that begins with an opening brace is a whole
  placeholder \<^verbatim>\<open>{name}\<close>, the code computes the identifier as worded above.
\<close>

theorem operationId_spec:
  assumes "\<forall>seg \<in> set (split CHR ''/'' pth). startsWith seg ''{'' \<longrightarrow> isPlaceholder seg"
  shows "generateOperationId meth pth = spec_operationId meth pth"
proof -
  have eq: "map pascalSegment (filter (\<lambda>p. p \<noteq> []) (split CHR ''/'' pth))
      = map spec_segment (filter (\<lambda>p. p \<noteq> []) (split CHR ''/'' pth))"
    using assms by (intro map_cong refl pascalSegment_spec) auto
  show ?thesis
    unfolding generateOperationId_def spec_operationId_def Let_def eq by (rule refl)
qed

text \<open>The method \<^verbatim>\<open>GET\<close> and the path \<^verbatim>\<open>/users/{id}/role\<close>.\<close>

theorem operationId_spec_witness:
  "generateOperationId ''GET'' ''/users/{id}/role'' = ''getUsersByIdRole''"
proof -
  have wf: "\<forall>seg \<in> set (split CHR ''/'' ''/users/{id}/role''). startsWith seg ''{'' \<longrightarrow> isPlaceholder seg"
    by (simp add: startsWith_def isPlaceholder_def)
  have "spec_operationId ''GET'' ''/users/{id}/role'' = ''getUsersByIdRole''"
    by code_simp
  with operationId_spec [OF wf, of "''GET''"] show ?thesis by simp
qed

text \<open>
  C9. A params or query schema whose conversion has no \<open>properties\<close> field gives no
  parameters; when neither schema of a route has one the route has no parameters; and an
  operation whose parameter list is empty has no \<open>parameters\<close> key. An absent schema, a value
  without \<^verbatim>\<open>_def\<close>, a string and a union all convert to a schema without \<open>properties\<close>.
\<close>

theorem no_properties_no_parameters:
  "(map_of (convert schema) ''properties'' = None \<longrightarrow> generateParameters schema location = [])
   \<and> (map_of (convert (paramsSchema r)) ''properties'' = None
        \<and> map_of (convert (querySchema r)) ''properties'' = None \<longrightarrow> routeParameters r = [])
   \<and> (routeParameters r = [] \<longrightarrow> parameters (generateOperation r) = None)
   \<and> map_of (convert None) ''properties'' = None
   \<and> map_of (convert (Some NoDef)) ''properties'' = None
   \<and> (def_typeName z = Some ''ZodString'' \<or> def_typeName z = Some ''ZodUnion''
       \<longrightarrow> map_of (convert (Some z)) ''properties'' = None)"
  by (auto simp add: generateParameters_def routeParameters_def generateOperation_def
      convert_NoDef convert_string convert_union map_of_addDescription
      convertString_def properties_fold_stringCheck)

theorem no_properties_no_parameters_witness:
  "generateParameters (Some (stringOf [])) ''path'' = []
   \<and> parameters (generateOperation (api_get ''/search''
        (emptyConfig\<lparr>cfg_params := Some (stringOf []),
                      cfg_query := Some (unionOf [Some (stringOf []), None])\<rparr>))) = None"
  using no_properties_no_parameters [of "Some (stringOf [])" "''path''" "api_get ''/search''
        (emptyConfig\<lparr>cfg_params := Some (stringOf []),
                      cfg_query := Some (unionOf [Some (stringOf []), None])\<rparr>)" "stringOf []"]
    no_properties_no_parameters [of "Some (unionOf [Some (stringOf []), None])" "''query''" "api_get ''/search''
        (emptyConfig\<lparr>cfg_params := Some (stringOf []),
                      cfg_query := Some (unionOf [Some (stringOf []), None])\<rparr>)" "unionOf [Some (stringOf []), None]"]
  by (simp add: api_get_def createRoute_def emptyConfig_def stringOf_def unionOf_def)


text \<open>
  For routes built by the five helpers whose paths name nothing that an object inherits
  (every path that begins with a slash is such a path), a path and a method are bound to
  the operation of the last route that has them, as an own property and as a property read.
\<close>

theorem last_route_wins:
  assumes "\<forall>r \<in> set routes. method r \<in> set apiMethods \<and> plainPath (path r)"
  shows "ownOperationAt (generateDocs routes) p m =
     (let same = filter (\<lambda>r. path r = p \<and> method r = m) routes
      in if same = [] then None else Some (generateOperation (last same)))
   \<and> operationAt (generateDocs routes) p m = ownOperationAt (generateDocs routes) p m"
proof -
  from assms have plain: "\<forall>r \<in> set routes. plainPath (path r)"
    by simp
  from plain_untouched [OF plain] operationAt_plain
  have "operationAt (generateDocs routes) p m = ownOperationAt (generateDocs routes) p m"
    by simp
  with plain_own [OF plain] show ?thesis by simp
qed

theorem last_route_wins_witness:
  "operationAt (generateDocs
      [api_get ''/users'' emptyConfig,
       api_post ''/users'' emptyConfig,
       createRoute ''get'' ''/users'' (emptyConfig\<lparr>cfg_summary := Some ''List users''\<rparr>)])
      ''/users'' ''get''
     = Some (generateOperation (createRoute ''get'' ''/users'' (emptyConfig\<lparr>cfg_summary := Some ''List users''\<rparr>)))
   \<and> ownOperationAt (generateDocs
      [api_get ''/users'' emptyConfig,
       api_post ''/users'' emptyConfig,
       createRoute ''get'' ''/users'' (emptyConfig\<lparr>cfg_summary := Some ''List users''\<rparr>)])
      ''/users'' ''post''
     = Some (generateOperation (api_post ''/users'' emptyConfig))"
proof -
  have lower: "toLowerCase ''get'' = ''get''" by code_simp
  show ?thesis
    using last_route_wins [of "[api_get ''/users'' emptyConfig,
         api_post ''/users'' emptyConfig,
         createRoute ''get'' ''/users'' (emptyConfig\<lparr>cfg_summary := Some ''List users''\<rparr>)]"
        "''/users''" "''get''"]
      last_route_wins [of "[api_get ''/users'' emptyConfig,
         api_post ''/users'' emptyConfig,
         createRoute ''get'' ''/users'' (emptyConfig\<lparr>cfg_summary := Some ''List users''\<rparr>)]"
        "''/users''" "''post''"]
    by (simp add: api_get_def api_post_def createRoute_fields toLowerCase_methods lower
        apiMethods_def plainPath_def objectPrototypeFunctions_def)
qed

end
